theory Spec2Isabelle
  imports Main "HOL-Library.Word"
begin

section \<open>JavaScript values held by the handlers\<close>

text \<open>
  The two handlers of \<^verbatim>\<open>ci-cd.js\<close> read \<^verbatim>\<open>req.body\<close>, which \<^verbatim>\<open>express.json()\<close>
  fills with the parsed JSON text of the request. A parsed value is a \<open>json\<close>; a value
  that may be \<^verbatim>\<open>undefined\<close> (an absent property, an absent header, the body of a request
  from which nothing was parsed) is a \<open>json option\<close> with \<open>None\<close> for \<^verbatim>\<open>undefined\<close>.

  Strings are byte strings (the UTF-8 encoding). A number is held as the decimal text that
  JavaScript prints for it (\<^verbatim>\<open>String(n)\<close>), so zero is \<open>''0''\<close>; the handlers only test
  numbers for truthiness and print them. The fields of an object are listed in the order
  in which JavaScript enumerates them, each key once.
\<close>

datatype json =
    JNull
  | JBool bool
  | JNum string
  | JStr string
  | JArr "json list"
  | JObj "(string \<times> json) list"

text \<open>An exception: \<^verbatim>\<open>error.message\<close> and, for a failed HTTP call, \<^verbatim>\<open>error.response\<close>
  with its \<^verbatim>\<open>status\<close> and \<^verbatim>\<open>data\<close>.\<close>

record js_error =
  message :: string
  response :: "(nat \<times> json option) option"

text \<open>A TypeError; the message texts follow Node's, shortened.\<close>

definition TypeError :: "string \<Rightarrow> js_error" where
  "TypeError msg = \<lparr>message = msg, response = None\<rparr>"

text \<open>\<^verbatim>\<open>!v\<close> is true for \<^verbatim>\<open>undefined\<close>, \<^verbatim>\<open>null\<close>, \<^verbatim>\<open>false\<close>, \<^verbatim>\<open>0\<close>, \<^verbatim>\<open>NaN\<close> and the
  empty string.\<close>

fun truthy :: "json option \<Rightarrow> bool" where
  "truthy None = False"
| "truthy (Some JNull) = False"
| "truthy (Some (JBool b)) = b"
| "truthy (Some (JNum n)) = (n \<noteq> ''0'' \<and> n \<noteq> ''NaN'')"
| "truthy (Some (JStr s)) = (s \<noteq> [])"
| "truthy (Some (JArr xs)) = True"
| "truthy (Some (JObj kvs)) = True"

fun join :: "string \<Rightarrow> string list \<Rightarrow> string" where
  "join sep [] = []"
| "join sep [x] = x"
| "join sep (x # y # ys) = x @ sep @ join sep (y # ys)"

text \<open>The results of a list of steps run in order: the first error thrown ends the run.\<close>

fun collect :: "('e + 'a) list \<Rightarrow> 'e + 'a list" where
  "collect [] = Inr []"
| "collect (x # xs) =
     (case x of
        Inl e \<Rightarrow> Inl e
      | Inr v \<Rightarrow> (case collect xs of Inl e \<Rightarrow> Inl e | Inr vs \<Rightarrow> Inr (v # vs)))"

text \<open>
  The string a template literal \<^verbatim>\<open>`${v}`\<close> inserts for a parsed value. An array is its
  elements joined by commas, with \<^verbatim>\<open>null\<close> elements printed empty. An object is printed by
  its \<^verbatim>\<open>toString\<close> method: the inherited one gives \<^verbatim>\<open>[object Object]\<close>, but a parsed object
  with a field of that name hides it by a value that cannot be called, and the conversion
  throws a TypeError.
\<close>

fun ToString :: "json \<Rightarrow> js_error + string" where
  "ToString JNull = Inr ''null''"
| "ToString (JBool b) = Inr (if b then ''true'' else ''false'')"
| "ToString (JNum n) = Inr n"
| "ToString (JStr s) = Inr s"
| "ToString (JArr xs) =
     (case collect (map (\<lambda>x. if x = JNull then Inr [] else ToString x) xs) of
        Inl e \<Rightarrow> Inl e
      | Inr ss \<Rightarrow> Inr (join '','' ss))"
| "ToString (JObj kvs) =
     (case map_of kvs ''toString'' of
        None \<Rightarrow> Inr ''[object Object]''
      | Some v \<Rightarrow> Inl (TypeError ''Cannot convert object to primitive value''))"

definition template :: "json option \<Rightarrow> js_error + string" where
  "template v = (case v of None \<Rightarrow> Inr ''undefined'' | Some j \<Rightarrow> ToString j)"

text \<open>Reading a property: \<^verbatim>\<open>v.k\<close> throws a TypeError when \<^verbatim>\<open>v\<close> is \<^verbatim>\<open>undefined\<close> or
  \<^verbatim>\<open>null\<close>, gives the field of an object, and is \<^verbatim>\<open>undefined\<close> on any other parsed
  value for the names the handlers read (none of them is a prototype property).\<close>

fun get_prop :: "json option \<Rightarrow> string \<Rightarrow> js_error + json option" where
  "get_prop None k = Inl (TypeError (''Cannot read properties of undefined (reading '' @ k @ '')''))"
| "get_prop (Some JNull) k = Inl (TypeError (''Cannot read properties of null (reading '' @ k @ '')''))"
| "get_prop (Some (JObj kvs)) k = Inr (map_of kvs k)"
| "get_prop (Some v) k = Inr None"

subsection \<open>\<^verbatim>\<open>JSON.stringify\<close>\<close>

definition hex_digit :: "nat \<Rightarrow> char" where
  "hex_digit n = ''0123456789abcdef'' ! (n mod 16)"

definition quote_char :: "char \<Rightarrow> string" where
  "quote_char c =
     (if c = CHR 0x22 then [CHR 0x5C, CHR 0x22]
      else if c = CHR 0x5C then [CHR 0x5C, CHR 0x5C]
      else if c = CHR 0x08 then [CHR 0x5C, CHR ''b'']
      else if c = CHR 0x0C then [CHR 0x5C, CHR ''f'']
      else if c = CHR 0x0A then [CHR 0x5C, CHR ''n'']
      else if c = CHR 0x0D then [CHR 0x5C, CHR ''r'']
      else if c = CHR 0x09 then [CHR 0x5C, CHR ''t'']
      else if (of_char c :: nat) < 32
        then [CHR 0x5C, CHR ''u'', CHR ''0'', CHR ''0'',
              hex_digit (of_char c div 16), hex_digit (of_char c mod 16)]
      else [c])"

definition quote :: "string \<Rightarrow> string" where
  "quote s = [CHR 0x22] @ concat (map quote_char s) @ [CHR 0x22]"

fun JSON_stringify :: "json \<Rightarrow> string" where
  "JSON_stringify JNull = ''null''"
| "JSON_stringify (JBool b) = (if b then ''true'' else ''false'')"
| "JSON_stringify (JNum n) =
     (if n = ''Infinity'' \<or> n = ''-Infinity'' \<or> n = ''NaN'' then ''null'' else n)"
| "JSON_stringify (JStr s) = quote s"
| "JSON_stringify (JArr xs) = ''['' @ join '','' (map JSON_stringify xs) @ '']''"
| "JSON_stringify (JObj kvs) =
     ''{'' @ join '','' (map (\<lambda>(k, v). quote k @ '':'' @ JSON_stringify v) kvs) @ ''}''"

subsection \<open>String methods\<close>

text \<open>\<^verbatim>\<open>s.replace(pat, rep)\<close> with a string pattern replaces the first occurrence only. The
  receiver calls it with an empty replacement, so the \<^verbatim>\<open>$\<close> patterns of a replacement play
  no part.\<close>

fun replace :: "string \<Rightarrow> string \<Rightarrow> string \<Rightarrow> string" where
  "replace pat rep [] = (if pat = [] then rep else [])"
| "replace pat rep (c # cs) =
     (if take (length pat) (c # cs) = pat then rep @ drop (length pat) (c # cs)
      else c # replace pat rep cs)"

text \<open>\<^verbatim>\<open>s.split(sep)\<close> for a one-character separator; the result is never empty.\<close>

fun split :: "char \<Rightarrow> string \<Rightarrow> string list" where
  "split sep [] = [[]]"
| "split sep (c # cs) =
     (if c = sep then [] # split sep cs
      else (case split sep cs of p # ps \<Rightarrow> (c # p) # ps | [] \<Rightarrow> [[c]]))"

definition nth_opt :: "'a list \<Rightarrow> nat \<Rightarrow> 'a option" where
  "nth_opt xs i = (if i < length xs then Some (xs ! i) else None)"

text \<open>\<^verbatim>\<open>buffer.toString('hex')\<close>: two lower-case digits for each byte.\<close>

definition toString_hex :: "8 word list \<Rightarrow> string" where
  "toString_hex bs =
     concat (map (\<lambda>b. [hex_digit (unat b div 16), hex_digit (unat b mod 16)]) bs)"

section \<open>Configuration, requests and the outside world\<close>

text \<open>The settings read from \<^verbatim>\<open>process.env\<close>; an unset variable is \<^verbatim>\<open>undefined\<close>.\<close>

record config =
  JENKINS_URL :: "string option"
  WEBHOOK_BASE_URL :: "string option"

definition env_text :: "string option \<Rightarrow> string" where
  "env_text v = (case v of None \<Rightarrow> ''undefined'' | Some s \<Rightarrow> s)"

text \<open>
  A request as a handler sees it: the two headers the receiver reads, the body text as it
  arrived, and \<^verbatim>\<open>req.body\<close>, the value \<^verbatim>\<open>express.json()\<close> parsed from that text. When the
  request carries no JSON body, nothing is parsed: Express 4 then leaves \<^verbatim>\<open>req.body\<close> the
  empty object and Express 5 leaves it \<^verbatim>\<open>undefined\<close>; the source pins neither.
\<close>

record request =
  x_hub_signature_256 :: "string option"
  x_github_event :: "string option"
  raw_body :: string
  body :: "json option"

text \<open>What \<^verbatim>\<open>octokit.repos.createWebhook\<close> resolves with: \<^verbatim>\<open>webhook.data.id\<close>, a number
  (held as its decimal text), and \<^verbatim>\<open>webhook.data.config.url\<close>.\<close>

record webhook =
  webhook_id :: string
  webhook_url :: json

type_synonym params = "(string \<times> json option) list"

text \<open>
  The calls a handler sends out, in the order it sends them. The fixed parts of every call
  (credentials, content type, \<^verbatim>\<open>events: ['push']\<close>, \<^verbatim>\<open>active: true\<close>) are left out, and so
  are the lines written to the console. The source has no call that deletes a webhook.
\<close>

datatype call =
    Octokit_createWebhook "json option" "json option" string string
  | Axios_get string
  | Axios_post string params

text \<open>
  The outside world answers each call: a promise resolves (\<open>Inr\<close>) or rejects with an error
  (\<open>Inl\<close>). \<open>entropy\<close> is the stream of bytes \<^verbatim>\<open>crypto.randomBytes\<close> draws from.
\<close>

record world =
  entropy :: "nat \<Rightarrow> 8 word"
  createWebhook :: "json option \<Rightarrow> json option \<Rightarrow> string \<Rightarrow> string \<Rightarrow> js_error + webhook"
  axios_get :: "string \<Rightarrow> js_error + nat"
  axios_post :: "string \<Rightarrow> params \<Rightarrow> js_error + nat"

definition randomBytes :: "world \<Rightarrow> nat \<Rightarrow> 8 word list" where
  "randomBytes w n = map (entropy w) [0..<n]"

text \<open>
  \<^verbatim>\<open>crypto.createHmac('sha256', key).update(text).digest('hex')\<close> is a function of Node's
  library; the handlers take it as a parameter, from key and text to the hex digest.
\<close>

type_synonym hmac_fn = "string \<Rightarrow> string \<Rightarrow> string"

text \<open>\<^verbatim>\<open>webhookSecrets\<close>, the map from \<^verbatim>\<open>"owner/name"\<close> to the secret.\<close>

type_synonym store = "string \<rightharpoonup> string"

text \<open>\<^verbatim>\<open>webhookSecrets.get(k)\<close>: the keys are strings, so any other value finds nothing.\<close>

fun Map_get :: "store \<Rightarrow> json option \<Rightarrow> string option" where
  "Map_get st (Some (JStr k)) = st k"
| "Map_get st v = None"

text \<open>What the handler answers: \<^verbatim>\<open>res.status(n).json(v)\<close>, \<^verbatim>\<open>res.status(n).send(s)\<close>, or
  nothing at all when an error escapes the handler (Express 5 then answers 500 from its own
  error handler).\<close>

datatype http_response =
    Json_response nat json
  | Text_response nat string
  | Unhandled js_error

text \<open>What one run of a handler leaves behind: the response, the secret store and the calls
  sent out.\<close>

record outcome =
  reply :: http_response
  secrets :: store
  calls :: "call list"

fun is_build_trigger :: "call \<Rightarrow> bool" where
  "is_build_trigger (Axios_post u ps) = True"
| "is_build_trigger c = False"

definition builds :: "outcome \<Rightarrow> call list" where
  "builds out = filter is_build_trigger (calls out)"

section \<open>The registrar: \<^verbatim>\<open>POST /add-repo\<close>\<close>

definition ensureJenkinsJobExists :: "config \<Rightarrow> world \<Rightarrow> string \<Rightarrow> js_error + unit" where
  "ensureJenkinsJobExists cfg w jobName =
     (case axios_get w (env_text (JENKINS_URL cfg) @ ''/job/'' @ jobName @ ''/api/json'') of
        Inr status \<Rightarrow> Inr ()
      | Inl error \<Rightarrow>
          (case response error of
             Some (status, d) \<Rightarrow> if status = 404 then Inr () else Inl error
           | None \<Rightarrow> Inl error))"

text \<open>A field of an object sent with \<^verbatim>\<open>res.json\<close>: an \<^verbatim>\<open>undefined\<close> value is left out.\<close>

definition field :: "string \<Rightarrow> json option \<Rightarrow> (string \<times> json) list" where
  "field k v = (case v of None \<Rightarrow> [] | Some j \<Rightarrow> [(k, j)])"

text \<open>The \<^verbatim>\<open>catch\<close> block of the registrar.\<close>

definition add_repo_catch :: "js_error \<Rightarrow> http_response" where
  "add_repo_catch error =
     (case response error of
        Some (status, d) \<Rightarrow>
          Json_response status
            (JObj ((''error'', JStr (message error)) # field ''details'' d))
      | None \<Rightarrow>
          Json_response 500
            (JObj [(''error'', JStr ''Internal server error''),
                   (''message'', JStr (message error))]))"

definition missing_fields :: http_response where
  "missing_fields =
     Json_response 400
       (JObj [(''error'',
               JStr ''Missing required fields: repo_owner, repo_name, branch, user_id'')])"

text \<open>
  The \<^verbatim>\<open>try\<close> block of the registrar, entered with the four validated fields. Line 39
  prints the owner and the name in a template literal before anything else, and line 66
  prints the user identifier after the secret is stored; a conversion that throws goes to
  the \<^verbatim>\<open>catch\<close> block like any other error.
\<close>

definition add_repo_try ::
  "config \<Rightarrow> world \<Rightarrow> store \<Rightarrow> json option \<Rightarrow> json option \<Rightarrow> json option \<Rightarrow> json option
     \<Rightarrow> outcome" where
  "add_repo_try cfg w st repo_owner repo_name branch user_id =
     (case template repo_owner of
        Inl error \<Rightarrow> \<lparr>reply = add_repo_catch error, secrets = st, calls = []\<rparr>
      | Inr owner_text \<Rightarrow>
     (case template repo_name of
        Inl error \<Rightarrow> \<lparr>reply = add_repo_catch error, secrets = st, calls = []\<rparr>
      | Inr name_text \<Rightarrow>
     (let webhookSecret = toString_hex (randomBytes w 32);
          webhookKey = owner_text @ ''/'' @ name_text;
          c1 = Octokit_createWebhook repo_owner repo_name
                 (env_text (WEBHOOK_BASE_URL cfg) @ ''/webhook/github'') webhookSecret
      in case createWebhook w repo_owner repo_name
                (env_text (WEBHOOK_BASE_URL cfg) @ ''/webhook/github'') webhookSecret of
           Inl error \<Rightarrow> \<lparr>reply = add_repo_catch error, secrets = st, calls = [c1]\<rparr>
         | Inr hook \<Rightarrow>
             (let st' = st(webhookKey \<mapsto> webhookSecret)
              in case template user_id of
                   Inl error \<Rightarrow> \<lparr>reply = add_repo_catch error, secrets = st', calls = [c1]\<rparr>
                 | Inr user_text \<Rightarrow>
             (let jenkinsJobName = ''odoo-deploy-'' @ user_text;
                  c2 = Axios_get (env_text (JENKINS_URL cfg) @ ''/job/'' @ jenkinsJobName
                                    @ ''/api/json'')
              in case ensureJenkinsJobExists cfg w jenkinsJobName of
                   Inl error \<Rightarrow> \<lparr>reply = add_repo_catch error, secrets = st', calls = [c1, c2]\<rparr>
                 | Inr u \<Rightarrow>
                     (let jenkinsBuildUrl = env_text (JENKINS_URL cfg) @ ''/job/''
                              @ jenkinsJobName @ ''/buildWithParameters'';
                          ps = [(''REPO_OWNER'', repo_owner), (''REPO_NAME'', repo_name),
                                (''BRANCH'', branch), (''USER_ID'', user_id)];
                          c3 = Axios_post jenkinsBuildUrl ps
                      in case axios_post w jenkinsBuildUrl ps of
                           Inl error \<Rightarrow>
                             \<lparr>reply = add_repo_catch error, secrets = st', calls = [c1, c2, c3]\<rparr>
                         | Inr status \<Rightarrow>
                             \<lparr>reply = Json_response 200
                                (JObj [(''success'', JBool True),
                                       (''message'', JStr ''Repository added successfully''),
                                       (''data'',
                                        JObj ([(''webhook_id'', JNum (webhook_id hook)),
                                               (''webhook_url'', webhook_url hook),
                                               (''jenkins_job'', JStr jenkinsJobName),
                                               (''repository'', JStr webhookKey)]
                                              @ field ''branch'' branch))]),
                              secrets = st', calls = [c1, c2, c3]\<rparr>))))))"

text \<open>The destructuring of \<^verbatim>\<open>req.body\<close> on line 29 stands before the \<^verbatim>\<open>try\<close>: on a body
  that is \<^verbatim>\<open>undefined\<close> it throws, nothing catches the error and the handler sends no
  response of its own.\<close>

definition add_repo :: "config \<Rightarrow> world \<Rightarrow> store \<Rightarrow> request \<Rightarrow> outcome" where
  "add_repo cfg w st req =
     (case get_prop (body req) ''repo_owner'' of
        Inl error \<Rightarrow> \<lparr>reply = Unhandled error, secrets = st, calls = []\<rparr>
      | Inr repo_owner \<Rightarrow>
     (case get_prop (body req) ''repo_name'' of
        Inl error \<Rightarrow> \<lparr>reply = Unhandled error, secrets = st, calls = []\<rparr>
      | Inr repo_name \<Rightarrow>
     (case get_prop (body req) ''branch'' of
        Inl error \<Rightarrow> \<lparr>reply = Unhandled error, secrets = st, calls = []\<rparr>
      | Inr branch \<Rightarrow>
     (case get_prop (body req) ''user_id'' of
        Inl error \<Rightarrow> \<lparr>reply = Unhandled error, secrets = st, calls = []\<rparr>
      | Inr user_id \<Rightarrow>
          if \<not> truthy repo_owner \<or> \<not> truthy repo_name \<or> \<not> truthy branch \<or> \<not> truthy user_id
          then \<lparr>reply = missing_fields, secrets = st, calls = []\<rparr>
          else add_repo_try cfg w st repo_owner repo_name branch user_id))))"

text \<open>The registrar's success response: status 200 and \<^verbatim>\<open>success: true\<close>.\<close>

definition succeeded :: "outcome \<Rightarrow> bool" where
  "succeeded out =
     (case reply out of
        Json_response status j \<Rightarrow>
          status = 200 \<and> get_prop (Some j) ''success'' = Inr (Some (JBool True))
      | _ \<Rightarrow> False)"

section \<open>The webhook receiver: \<^verbatim>\<open>POST /webhook/github\<close>\<close>

text \<open>\<^verbatim>\<open>payload.ref.replace('refs/heads/', '')\<close>: only a string has the method.\<close>

fun ref_replace :: "json option \<Rightarrow> js_error + string" where
  "ref_replace None = Inl (TypeError ''Cannot read properties of undefined (reading replace)'')"
| "ref_replace (Some JNull) = Inl (TypeError ''Cannot read properties of null (reading replace)'')"
| "ref_replace (Some (JStr r)) = Inr (replace ''refs/heads/'' [] r)"
| "ref_replace (Some v) = Inl (TypeError ''payload.ref.replace is not a function'')"

text \<open>Lines 139 to 142: \<^verbatim>\<open>repoFullName\<close>, \<^verbatim>\<open>branch\<close> and \<^verbatim>\<open>commitSha\<close>.\<close>

definition push_fields ::
  "json option \<Rightarrow> js_error + (json option \<times> string \<times> json option)" where
  "push_fields payload =
     (case get_prop payload ''repository'' of
        Inl error \<Rightarrow> Inl error
      | Inr repository \<Rightarrow>
     (case get_prop repository ''full_name'' of
        Inl error \<Rightarrow> Inl error
      | Inr repoFullName \<Rightarrow>
     (case get_prop payload ''ref'' of
        Inl error \<Rightarrow> Inl error
      | Inr ref \<Rightarrow>
     (case ref_replace ref of
        Inl error \<Rightarrow> Inl error
      | Inr branch \<Rightarrow>
     (case get_prop payload ''after'' of
        Inl error \<Rightarrow> Inl error
      | Inr commitSha \<Rightarrow> Inr (repoFullName, branch, commitSha))))))"

definition internal_error :: http_response where
  "internal_error = Text_response 500 ''Internal error''"

text \<open>Lines 164 to 194, after the signature has been verified.\<close>

definition trigger_build ::
  "config \<Rightarrow> world \<Rightarrow> store \<Rightarrow> json option \<Rightarrow> string \<Rightarrow> json option \<Rightarrow> outcome" where
  "trigger_build cfg w st repoFullName branch commitSha =
     (case repoFullName of
        Some (JStr full_name) \<Rightarrow>
          (let parts = split CHR ''/'' full_name;
               repo_owner = map_option JStr (nth_opt parts 0);
               repo_name = map_option JStr (nth_opt parts 1);
               user_id = repo_owner
           in case template user_id of
                Inl error \<Rightarrow> \<lparr>reply = internal_error, secrets = st, calls = []\<rparr>
              | Inr user_text \<Rightarrow>
          (let jenkinsJobName = ''odoo-deploy-'' @ user_text;
               u = env_text (JENKINS_URL cfg) @ ''/job/'' @ jenkinsJobName
                     @ ''/buildWithParameters'';
               ps = [(''REPO_OWNER'', repo_owner), (''REPO_NAME'', repo_name),
                     (''BRANCH'', Some (JStr branch)), (''USER_ID'', user_id),
                     (''COMMIT_SHA'', commitSha)]
           in case axios_post w u ps of
                Inl error \<Rightarrow> \<lparr>reply = internal_error, secrets = st, calls = [Axios_post u ps]\<rparr>
              | Inr status \<Rightarrow>
                  \<lparr>reply = Text_response 200 ''Webhook processed'', secrets = st,
                   calls = [Axios_post u ps]\<rparr>))
      | _ \<Rightarrow> \<lparr>reply = internal_error, secrets = st, calls = []\<rparr>)"

text \<open>The text whose HMAC the receiver compares with the header (line 155):
  \<^verbatim>\<open>JSON.stringify(req.body)\<close>. Of an \<^verbatim>\<open>undefined\<close> body it is \<^verbatim>\<open>undefined\<close>, which
  \<^verbatim>\<open>hmac.update\<close> refuses with a TypeError.\<close>

definition signed_text :: "request \<Rightarrow> js_error + string" where
  "signed_text req =
     (case body req of
        None \<Rightarrow> Inl (TypeError ''The data argument must be of type string'')
      | Some payload \<Rightarrow> Inr (JSON_stringify payload))"

text \<open>The handler. Line 144 prints \<^verbatim>\<open>repoFullName\<close> in a template literal before the
  secret is looked up; every error thrown inside the \<^verbatim>\<open>try\<close> is answered 500.\<close>

definition webhook_github :: "hmac_fn \<Rightarrow> config \<Rightarrow> world \<Rightarrow> store \<Rightarrow> request \<Rightarrow> outcome" where
  "webhook_github hmac cfg w st req =
     (if x_github_event req \<noteq> Some ''push''
      then \<lparr>reply = Text_response 200 ''Event ignored'', secrets = st, calls = []\<rparr>
      else case push_fields (body req) of
        Inl error \<Rightarrow> \<lparr>reply = internal_error, secrets = st, calls = []\<rparr>
      | Inr (repoFullName, branch, commitSha) \<Rightarrow>
      (case template repoFullName of
        Inl error \<Rightarrow> \<lparr>reply = internal_error, secrets = st, calls = []\<rparr>
      | Inr name_text \<Rightarrow>
          (case Map_get st repoFullName of
             None \<Rightarrow> \<lparr>reply = Text_response 404 ''Repository not registered'', secrets = st,
                      calls = []\<rparr>
           | Some webhookSecret \<Rightarrow>
               if webhookSecret = []
               then \<lparr>reply = Text_response 404 ''Repository not registered'', secrets = st,
                     calls = []\<rparr>
               else
                 (case signed_text req of
                    Inl error \<Rightarrow> \<lparr>reply = internal_error, secrets = st, calls = []\<rparr>
                  | Inr text \<Rightarrow>
                 (let digest = ''sha256='' @ hmac webhookSecret text
                  in if x_hub_signature_256 req \<noteq> Some digest
                     then \<lparr>reply = Text_response 401 ''Invalid signature'', secrets = st,
                           calls = []\<rparr>
                     else trigger_build cfg w st repoFullName branch commitSha)))))"

section \<open>Runs of the service\<close>

text \<open>The stores the service can hold: it starts empty and changes only through its two
  handlers, each run against some state of the outside world.\<close>

inductive reachable :: "store \<Rightarrow> bool" where
  start: "reachable Map.empty"
| registrar: "reachable st \<Longrightarrow> reachable (secrets (add_repo cfg w st req))"
| receiver: "reachable st \<Longrightarrow> reachable (secrets (webhook_github hmac cfg w st req))"

section \<open>A sample deployment\<close>

text \<open>
  Concrete settings, worlds and requests at which the theorems below are instantiated.
  \<open>sample_hmac\<close> stands in for Node's HMAC there; every theorem holds for any function.
\<close>

definition cfg0 :: config where
  "cfg0 = \<lparr>JENKINS_URL = Some ''http://jenkins'', WEBHOOK_BASE_URL = Some ''https://relay''\<rparr>"

definition sample_hmac :: hmac_fn where
  "sample_hmac key text = key @ '':'' @ text"

text \<open>A world in which every call succeeds.\<close>

definition world_ok :: world where
  "world_ok =
     \<lparr>entropy = (\<lambda>i. of_nat i),
      createWebhook = (\<lambda>ow rp u s. Inr \<lparr>webhook_id = ''7'', webhook_url = JStr u\<rparr>),
      axios_get = (\<lambda>u. Inr 200),
      axios_post = (\<lambda>u ps. Inr 201)\<rparr>"


text \<open>A world that draws other random bytes.\<close>

definition world_later :: world where
  "world_later = world_ok\<lparr>entropy := (\<lambda>i. of_nat (255 - i))\<rparr>"

definition secret_acme :: string where
  "secret_acme = ''000102030405060708090a0b0c0d0e0f101112131415161718191a1b1c1d1e1f''"

definition secret_later :: string where
  "secret_later = ''fffefdfcfbfaf9f8f7f6f5f4f3f2f1f0efeeedecebeae9e8e7e6e5e4e3e2e1e0''"

definition register_acme :: request where
  "register_acme =
     \<lparr>x_hub_signature_256 = None, x_github_event = None, raw_body = [],
      body = Some (JObj [(''repo_owner'', JStr ''acme''), (''repo_name'', JStr ''widget''),
                         (''branch'', JStr ''main''), (''user_id'', JStr ''u123'')])\<rparr>"

definition register_no_branch :: request where
  "register_no_branch =
     \<lparr>x_hub_signature_256 = None, x_github_event = None, raw_body = [],
      body = Some (JObj [(''repo_owner'', JStr ''acme''), (''repo_name'', JStr ''widget''),
                         (''user_id'', JStr ''u123'')])\<rparr>"

definition register_empty_owner :: request where
  "register_empty_owner =
     \<lparr>x_hub_signature_256 = None, x_github_event = None, raw_body = [],
      body = Some (JObj [(''repo_owner'', JStr []), (''repo_name'', JStr ''widget''),
                         (''branch'', JStr ''main''), (''user_id'', JStr ''u123'')])\<rparr>"

text \<open>A request without a body, as Express 5 hands it to the handler.\<close>

definition register_no_body :: request where
  "register_no_body =
     \<lparr>x_hub_signature_256 = None, x_github_event = None, raw_body = [], body = None\<rparr>"

definition st_acme :: store where
  "st_acme = secrets (add_repo cfg0 world_ok Map.empty register_acme)"

definition push_main :: json where
  "push_main =
     JObj [(''ref'', JStr ''refs/heads/main''), (''after'', JStr ''abc123''),
           (''repository'', JObj [(''full_name'', JStr ''acme/widget'')])]"




text \<open>A push delivery with a given signature header.\<close>

definition delivery :: "json \<Rightarrow> string option \<Rightarrow> request" where
  "delivery payload sig =
     \<lparr>x_hub_signature_256 = sig, x_github_event = Some ''push'', raw_body = [],
      body = Some payload\<rparr>"

definition ping :: request where
  "ping =
     \<lparr>x_hub_signature_256 = None, x_github_event = Some ''ping'', raw_body = [],
      body = Some (JObj [(''zen'', JStr ''Keep it simple'')])\<rparr>"

text \<open>The same push written with a blank after each colon and comma, and the header a
  sender computes over these bytes.\<close>

definition spaced_text :: string where
  \<open>spaced_text =
     ''{"ref": "refs/heads/main", "after": "abc123", "repository": {"full_name": "acme/widget"}}''\<close>

definition compact_text :: string where
  \<open>compact_text =
     ''{"ref":"refs/heads/main","after":"abc123","repository":{"full_name":"acme/widget"}}''\<close>

definition spaced_push :: "hmac_fn \<Rightarrow> request" where
  "spaced_push hmac =
     \<lparr>x_hub_signature_256 = Some (''sha256='' @ hmac secret_acme spaced_text),
      x_github_event = Some ''push'', raw_body = spaced_text, body = Some push_main\<rparr>"

text \<open>The same bytes again, with a header computed over the compact text instead, which is
  not the text sent.\<close>

definition compact_signed :: "hmac_fn \<Rightarrow> request" where
  "compact_signed hmac =
     \<lparr>x_hub_signature_256 = Some (''sha256='' @ hmac secret_acme compact_text),
      x_github_event = Some ''push'', raw_body = spaced_text, body = Some push_main\<rparr>"

text \<open>A push delivery signed with the stored secret.\<close>

definition good_push :: request where
  "good_push = delivery push_main (Some (''sha256='' @ sample_hmac secret_acme compact_text))"

text \<open>A push of a tag whose name contains \<^verbatim>\<open>refs/heads/\<close>, signed with the stored secret.\<close>

definition push_tag :: json where
  "push_tag =
     JObj [(''ref'', JStr ''refs/tags/refs/heads/x''), (''after'', JStr ''abc123''),
           (''repository'', JObj [(''full_name'', JStr ''acme/widget'')])]"

definition tag_text :: string where
  \<open>tag_text =
     ''{"ref":"refs/tags/refs/heads/x","after":"abc123","repository":{"full_name":"acme/widget"}}''\<close>

definition good_tag_push :: request where
  "good_tag_push = delivery push_tag (Some (''sha256='' @ sample_hmac secret_acme tag_text))"

section \<open>The wording of the specification\<close>

text \<open>Stripping a prefix, as the specification words the derivation of the branch: the text
  without the prefix when it begins with it, the text itself otherwise.\<close>

definition strip_prefix :: "string \<Rightarrow> string \<Rightarrow> string" where
  "strip_prefix p s = (if take (length p) s = p then drop (length p) s else s)"

section \<open>Properties of the helpers\<close>

lemma length_toString_hex: "length (toString_hex bs) = 2 * length bs"
  by (induction bs) (simp_all add: toString_hex_def)

lemma length_fresh_secret: "length (toString_hex (randomBytes w 32)) = 64"
  by (simp add: length_toString_hex randomBytes_def)

lemma fresh_secret_not_empty: "toString_hex (randomBytes w 32) \<noteq> []"
  using length_fresh_secret [of w] by auto

lemma template_JStr: "template (Some (JStr s)) = Inr s"
  by (simp add: template_def)

lemma replace_at_start:
  "take (length p) xs = p \<Longrightarrow> replace p r xs = r @ drop (length p) xs"
  by (cases xs) auto

lemma replace_prefix: "replace p r (p @ s) = r @ s"
  by (simp add: replace_at_start)

lemma split_not_Nil: "split sep s \<noteq> []"
  by (induction s) (auto split: list.splits)

lemma split_no_sep: "sep \<notin> set s \<Longrightarrow> split sep s = [s]"
  by (induction s) auto

lemma split_append: "sep \<notin> set a \<Longrightarrow> split sep (a @ sep # b) = a # split sep b"
  by (induction a) auto

lemma split_owner_name:
  "CHR ''/'' \<notin> set owner \<Longrightarrow> CHR ''/'' \<notin> set name \<Longrightarrow>
   split CHR ''/'' (owner @ ''/'' @ name) = [owner, name]"
  by (simp add: split_append split_no_sep)

lemma get_prop_total:
  "get_prop b k = Inr v \<Longrightarrow> \<exists>v'. get_prop b k' = Inr v'"
  by (cases "(b, k)" rule: get_prop.cases) auto

text \<open>Lines 139 to 142 succeed exactly on a payload with a repository and a string ref.\<close>

lemma push_fields_eq:
  assumes "get_prop payload ''repository'' = Inr repository"
    and "get_prop repository ''full_name'' = Inr repoFullName"
    and "get_prop payload ''ref'' = Inr (Some (JStr ref))"
  shows "\<exists>commitSha. get_prop payload ''after'' = Inr commitSha \<and>
           push_fields payload = Inr (repoFullName, replace ''refs/heads/'' [] ref, commitSha)"
proof -
  from get_prop_total [OF assms(1)] obtain commitSha where
    "get_prop payload ''after'' = Inr commitSha"
    by blast
  with assms show ?thesis
    by (simp add: push_fields_def)
qed

lemma push_fields_Inr:
  assumes "push_fields payload = Inr (repoFullName, branch, commitSha)"
  shows "\<exists>repository ref.
           get_prop payload ''repository'' = Inr repository \<and>
           get_prop repository ''full_name'' = Inr repoFullName \<and>
           get_prop payload ''ref'' = Inr (Some (JStr ref)) \<and>
           branch = replace ''refs/heads/'' [] ref \<and>
           get_prop payload ''after'' = Inr commitSha"
proof -
  from assms obtain repository where 1: "get_prop payload ''repository'' = Inr repository"
    by (auto simp: push_fields_def split: sum.splits)
  with assms have 2: "get_prop repository ''full_name'' = Inr repoFullName"
    by (auto simp: push_fields_def split: sum.splits)
  from assms 1 2 obtain r where 3: "get_prop payload ''ref'' = Inr r"
    by (auto simp: push_fields_def split: sum.splits)
  from assms 1 2 3 have 4: "ref_replace r = Inr branch"
    by (auto simp: push_fields_def split: sum.splits)
  then obtain ref where 5: "r = Some (JStr ref)" "branch = replace ''refs/heads/'' [] ref"
    by (cases r rule: ref_replace.cases) auto
  from assms 1 2 3 4 have 6: "get_prop payload ''after'' = Inr commitSha"
    by (auto simp: push_fields_def split: sum.splits)
  from 1 2 3 5 6 show ?thesis by blast
qed

section \<open>The secret store along a run\<close>

lemma secrets_trigger_build: "secrets (trigger_build cfg w st f b c) = st"
  by (simp add: trigger_build_def Let_def split: option.splits json.splits sum.splits)

lemma secrets_webhook_github: "secrets (webhook_github hmac cfg w st req) = st"
  by (simp add: webhook_github_def Let_def secrets_trigger_build
      split: sum.splits option.splits prod.splits)

lemma secrets_add_repo_try:
  "secrets (add_repo_try cfg w st ow nm br us) = st \<or>
   (\<exists>k. secrets (add_repo_try cfg w st ow nm br us) =
          st(k \<mapsto> toString_hex (randomBytes w 32)))"
  by (auto simp add: add_repo_try_def Let_def split: sum.splits)

lemma secrets_add_repo:
  "secrets (add_repo cfg w st req) = st \<or>
   (\<exists>k. secrets (add_repo cfg w st req) = st(k \<mapsto> toString_hex (randomBytes w 32)))"
  using secrets_add_repo_try
  by (simp add: add_repo_def split: sum.splits)

text \<open>Every secret the service ever holds is the hex text of 32 bytes.\<close>

lemma reachable_secret_length:
  "reachable st \<Longrightarrow> st k = Some s \<Longrightarrow> length s = 64"
proof (induction arbitrary: k s rule: reachable.induct)
  case start
  then show ?case by simp
next
  case (registrar st cfg w req)
  from secrets_add_repo [of cfg w st req] show ?case
  proof
    assume "secrets (add_repo cfg w st req) = st"
    with registrar show ?thesis by simp
  next
    assume "\<exists>k'. secrets (add_repo cfg w st req) = st(k' \<mapsto> toString_hex (randomBytes w 32))"
    then obtain k' where
      "secrets (add_repo cfg w st req) = st(k' \<mapsto> toString_hex (randomBytes w 32))" ..
    with registrar show ?thesis
      by (cases "k = k'") (auto simp: length_fresh_secret)
  qed
next
  case (receiver st hmac cfg w req)
  then show ?case by (simp add: secrets_webhook_github)
qed

lemma reachable_secret_not_empty: "reachable st \<Longrightarrow> st k = Some s \<Longrightarrow> s \<noteq> []"
  using reachable_secret_length [of st k s] by auto

section \<open>Facts about the sample deployment\<close>

lemma secret_world_ok: "toString_hex (randomBytes world_ok 32) = secret_acme"
  by code_simp

lemma secret_world_later: "toString_hex (randomBytes world_later 32) = secret_later"
  by code_simp

lemma world_ok_calls:
  "createWebhook world_ok ow rp u s = Inr \<lparr>webhook_id = ''7'', webhook_url = JStr u\<rparr>"
  "axios_get world_ok u = Inr 200"
  "axios_post world_ok u ps = Inr 201"
  by (simp_all add: world_ok_def)


lemma world_later_calls:
  "createWebhook world_later ow rp u s =
     Inr \<lparr>webhook_id = ''7'', webhook_url = JStr u\<rparr>"
  "axios_get world_later u = Inr 200"
  "axios_post world_later u ps = Inr 201"
  by (simp_all add: world_later_def world_ok_def)

lemma register_acme_props:
  "get_prop (body register_acme) ''repo_owner'' = Inr (Some (JStr ''acme''))"
  "get_prop (body register_acme) ''repo_name'' = Inr (Some (JStr ''widget''))"
  "get_prop (body register_acme) ''branch'' = Inr (Some (JStr ''main''))"
  "get_prop (body register_acme) ''user_id'' = Inr (Some (JStr ''u123''))"
  by (simp_all add: register_acme_def)

lemma st_acme_eq: "st_acme = [''acme/widget'' \<mapsto> secret_acme]"
  by (simp add: st_acme_def add_repo_def add_repo_try_def register_acme_props Let_def
      ensureJenkinsJobExists_def template_JStr secret_world_ok world_ok_calls)

lemma reachable_st_acme: "reachable st_acme"
  unfolding st_acme_def by (rule reachable.registrar [OF reachable.start])

lemma st_acme_lookup:
  "st_acme ''acme/widget'' = Some secret_acme"
  "st_acme ''acme/gadget'' = None"
  by (simp_all add: st_acme_eq)

lemma signed_text_push_main: "JSON_stringify push_main = compact_text"
  by (simp add: push_main_def compact_text_def quote_def quote_char_def)

lemma signed_text_push_tag: "JSON_stringify push_tag = tag_text"
  by (simp add: push_tag_def tag_text_def quote_def quote_char_def)

lemma push_main_props:
  "get_prop (Some push_main) ''repository'' = Inr (Some (JObj [(''full_name'', JStr ''acme/widget'')]))"
  "get_prop (Some (JObj [(''full_name'', JStr ''acme/widget'')])) ''full_name'' = Inr (Some (JStr ''acme/widget''))"
  "get_prop (Some push_main) ''ref'' = Inr (Some (JStr ''refs/heads/main''))"
  "get_prop (Some push_main) ''after'' = Inr (Some (JStr ''abc123''))"
  by (simp_all add: push_main_def)


lemma push_tag_props:
  "get_prop (Some push_tag) ''repository'' = Inr (Some (JObj [(''full_name'', JStr ''acme/widget'')]))"
  "get_prop (Some push_tag) ''ref'' = Inr (Some (JStr ''refs/tags/refs/heads/x''))"
  "get_prop (Some push_tag) ''after'' = Inr (Some (JStr ''abc123''))"
  by (simp_all add: push_tag_def)

lemma delivery_sel:
  "x_github_event (delivery p sig) = Some ''push''"
  "x_hub_signature_256 (delivery p sig) = sig"
  "body (delivery p sig) = Some p"
  by (simp_all add: delivery_def)

lemma good_push_outcome:
  "webhook_github sample_hmac cfg0 world_ok st_acme good_push =
     \<lparr>reply = Text_response 200 ''Webhook processed'', secrets = st_acme,
      calls = [Axios_post ''http://jenkins/job/odoo-deploy-acme/buildWithParameters''
                 [(''REPO_OWNER'', Some (JStr ''acme'')), (''REPO_NAME'', Some (JStr ''widget'')),
                  (''BRANCH'', Some (JStr ''main'')), (''USER_ID'', Some (JStr ''acme'')),
                  (''COMMIT_SHA'', Some (JStr ''abc123''))]]\<rparr>"
  by (simp add: webhook_github_def good_push_def delivery_sel push_fields_def push_main_props
      st_acme_lookup signed_text_def signed_text_push_main trigger_build_def Let_def
      nth_opt_def template_JStr env_text_def cfg0_def world_ok_calls secret_acme_def)

lemma good_tag_push_outcome:
  "webhook_github sample_hmac cfg0 world_ok st_acme good_tag_push =
     \<lparr>reply = Text_response 200 ''Webhook processed'', secrets = st_acme,
      calls = [Axios_post ''http://jenkins/job/odoo-deploy-acme/buildWithParameters''
                 [(''REPO_OWNER'', Some (JStr ''acme'')), (''REPO_NAME'', Some (JStr ''widget'')),
                  (''BRANCH'', Some (JStr ''refs/tags/x'')), (''USER_ID'', Some (JStr ''acme'')),
                  (''COMMIT_SHA'', Some (JStr ''abc123''))]]\<rparr>"
  by (simp add: webhook_github_def good_tag_push_def delivery_sel push_fields_def push_tag_props
      push_main_props st_acme_lookup signed_text_def signed_text_push_tag trigger_build_def
      Let_def nth_opt_def template_JStr env_text_def cfg0_def world_ok_calls secret_acme_def)

section \<open>Properties of the webhook receiver\<close>

text \<open>
  Claim C8. A request whose event header is not \<^verbatim>\<open>push\<close> (or is absent) is answered with
  200 \<^verbatim>\<open>Event ignored\<close>; no call goes out, so no build is triggered; the secret store is
  unchanged; and neither the signature header nor the HMAC function has any influence on
  the outcome, so no signature is checked.
\<close>

theorem non_push_event_ignored:
  assumes "x_github_event req \<noteq> Some ''push''"
  shows "webhook_github hmac cfg w st req =
           \<lparr>reply = Text_response 200 ''Event ignored'', secrets = st, calls = []\<rparr> \<and>
         webhook_github hmac' cfg w st (req\<lparr>x_hub_signature_256 := sig\<rparr>) =
           webhook_github hmac cfg w st req"
  using assms by (simp add: webhook_github_def)

theorem non_push_event_ignored_witness:
  "x_github_event ping \<noteq> Some ''push'' \<and>
   webhook_github sample_hmac cfg0 world_ok st_acme ping =
     \<lparr>reply = Text_response 200 ''Event ignored'', secrets = st_acme, calls = []\<rparr>"
proof -
  have h: "x_github_event ping \<noteq> Some ''push''"
    by (simp add: ping_def)
  from non_push_event_ignored [OF h, of sample_hmac cfg0 world_ok st_acme] h
  show ?thesis by simp
qed

text \<open>A push whose payload lacks the repository or a string ref makes lines 140 and 141
  throw, and a full name that line 144 cannot print makes that line throw; the \<^verbatim>\<open>catch\<close>
  block answers 500 before any lookup.\<close>

lemma push_without_fields_internal_error:
  assumes "x_github_event req = Some ''push''"
    and "push_fields (body req) = Inl error"
  shows "webhook_github hmac cfg w st req =
           \<lparr>reply = Text_response 500 ''Internal error'', secrets = st, calls = []\<rparr>"
  using assms by (simp add: webhook_github_def internal_error_def)

lemma push_unprintable_name_internal_error:
  assumes "x_github_event req = Some ''push''"
    and "push_fields (body req) = Inr (repoFullName, branch, commitSha)"
    and "template repoFullName = Inl error"
  shows "webhook_github hmac cfg w st req =
           \<lparr>reply = Text_response 500 ''Internal error'', secrets = st, calls = []\<rparr>"
  using assms by (simp add: webhook_github_def internal_error_def)





lemma webhook_github_registered:
  assumes "x_github_event req = Some ''push''"
    and "body req = Some payload"
    and "get_prop (Some payload) ''repository'' = Inr repository"
    and "get_prop repository ''full_name'' = Inr (Some (JStr full_name))"
    and "get_prop (Some payload) ''ref'' = Inr (Some (JStr ref))"
    and "st full_name = Some secret"
    and "secret \<noteq> []"
  shows "\<exists>commitSha. get_prop (Some payload) ''after'' = Inr commitSha \<and>
         webhook_github hmac cfg w st req =
           (if x_hub_signature_256 req \<noteq> Some (''sha256='' @ hmac secret (JSON_stringify payload))
            then \<lparr>reply = Text_response 401 ''Invalid signature'', secrets = st, calls = []\<rparr>
            else trigger_build cfg w st (Some (JStr full_name))
                   (replace ''refs/heads/'' [] ref) commitSha)"
proof -
  from push_fields_eq [OF assms(3,4,5)] obtain commitSha where
    "get_prop (Some payload) ''after'' = Inr commitSha"
    "push_fields (Some payload) =
       Inr (Some (JStr full_name), replace ''refs/heads/'' [] ref, commitSha)"
    by blast
  with assms(1,2,6,7) show ?thesis
    by (simp add: webhook_github_def signed_text_def template_JStr Let_def)
qed

text \<open>The build call of an accepted push, for any full name and branch.\<close>

lemma trigger_build_eq:
  "trigger_build cfg w st (Some (JStr full_name)) branch commitSha =
     (let parts = split CHR ''/'' full_name;
          u = env_text (JENKINS_URL cfg) @ ''/job/'' @ (''odoo-deploy-'' @ hd parts)
                @ ''/buildWithParameters'';
          ps = [(''REPO_OWNER'', Some (JStr (hd parts))),
                (''REPO_NAME'', map_option JStr (nth_opt parts 1)),
                (''BRANCH'', Some (JStr branch)), (''USER_ID'', Some (JStr (hd parts))),
                (''COMMIT_SHA'', commitSha)]
      in \<lparr>reply = (case axios_post w u ps of
                      Inl error \<Rightarrow> Text_response 500 ''Internal error''
                    | Inr status \<Rightarrow> Text_response 200 ''Webhook processed''),
          secrets = st, calls = [Axios_post u ps]\<rparr>)"
proof -
  have "nth_opt (split CHR ''/'' full_name) 0 = Some (hd (split CHR ''/'' full_name))"
    using split_not_Nil [of "CHR ''/''" full_name]
    by (cases "split CHR ''/'' full_name") (simp_all add: nth_opt_def)
  then show ?thesis
    by (simp add: trigger_build_def Let_def template_JStr internal_error_def split: sum.splits)
qed

lemma trigger_build_calls:
  "\<exists>u ps. calls (trigger_build cfg w st (Some (JStr full_name)) branch commitSha)
            = [Axios_post u ps]"
  by (simp add: trigger_build_eq Let_def)

lemma trigger_build_owner_name:
  assumes "CHR ''/'' \<notin> set owner" and "CHR ''/'' \<notin> set name"
  shows "calls (trigger_build cfg w st (Some (JStr (owner @ ''/'' @ name))) branch commitSha) =
           [Axios_post
              (env_text (JENKINS_URL cfg) @ ''/job/'' @ (''odoo-deploy-'' @ owner)
                 @ ''/buildWithParameters'')
              [(''REPO_OWNER'', Some (JStr owner)), (''REPO_NAME'', Some (JStr name)),
               (''BRANCH'', Some (JStr branch)), (''USER_ID'', Some (JStr owner)),
               (''COMMIT_SHA'', commitSha)]]"
  using split_owner_name [OF assms]
  by (simp add: trigger_build_eq Let_def nth_opt_def)

text \<open>
  Claim C3. In every run of the receiver, from any store and for any request whatever, a
  build call goes out only if the request is a push whose repository full name has an entry
  in the secret store and whose signature header equals the recomputed signature.
\<close>

theorem build_only_when_verified:
  assumes "builds (webhook_github hmac cfg w st req) \<noteq> []"
  shows "\<exists>payload repository full_name secret.
           x_github_event req = Some ''push'' \<and>
           body req = Some payload \<and>
           get_prop (Some payload) ''repository'' = Inr repository \<and>
           get_prop repository ''full_name'' = Inr (Some (JStr full_name)) \<and>
           st full_name = Some secret \<and>
           x_hub_signature_256 req = Some (''sha256='' @ hmac secret (JSON_stringify payload))"
proof -
  from assms have ev: "x_github_event req = Some ''push''"
    by (auto simp: webhook_github_def builds_def split: if_splits)
  with assms obtain repoFullName branch commitSha where
    pf: "push_fields (body req) = Inr (repoFullName, branch, commitSha)"
    by (auto simp: webhook_github_def builds_def split: sum.splits)
  with assms ev obtain printed where
    pr: "template repoFullName = Inr printed"
    by (auto simp: webhook_github_def builds_def split: sum.splits)
  with assms ev pf obtain secret where
    lk: "Map_get st repoFullName = Some secret"
    by (auto simp: webhook_github_def builds_def split: option.splits)
  then obtain full_name where
    fn: "repoFullName = Some (JStr full_name)" "st full_name = Some secret"
    by (cases "(st, repoFullName)" rule: Map_get.cases) auto
  from assms ev pf pr lk obtain msg where
    tx: "signed_text req = Inr msg"
    by (auto simp: webhook_github_def builds_def split: sum.splits if_splits)
  then obtain payload where
    bd: "body req = Some payload" "msg = JSON_stringify payload"
    by (auto simp: signed_text_def split: option.splits)
  from assms ev pf pr lk tx have
    sg: "x_hub_signature_256 req = Some (''sha256='' @ hmac secret msg)"
    by (auto simp: webhook_github_def builds_def Let_def split: if_splits)
  from push_fields_Inr [OF pf] fn ev sg bd show ?thesis
    by auto
qed

theorem build_only_when_verified_witness:
  "builds (webhook_github sample_hmac cfg0 world_ok st_acme good_push) \<noteq> [] \<and>
   (\<exists>payload repository full_name secret.
      x_github_event good_push = Some ''push'' \<and>
      body good_push = Some payload \<and>
      get_prop (Some payload) ''repository'' = Inr repository \<and>
      get_prop repository ''full_name'' = Inr (Some (JStr full_name)) \<and>
      st_acme full_name = Some secret \<and>
      x_hub_signature_256 good_push =
        Some (''sha256='' @ sample_hmac secret (JSON_stringify payload)))"
proof -
  have h: "builds (webhook_github sample_hmac cfg0 world_ok st_acme good_push) \<noteq> []"
    by (simp add: good_push_outcome builds_def)
  from build_only_when_verified [OF h] h show ?thesis
    by simp
qed

text \<open>What the receiver does for pushes of a branch: the parameters the specification
  names.\<close>

lemma accepted_push_build_parameters:
  assumes "reachable st"
    and "x_github_event req = Some ''push''"
    and "body req = Some payload"
    and "get_prop (Some payload) ''repository'' = Inr repository"
    and "get_prop repository ''full_name'' = Inr (Some (JStr (owner @ ''/'' @ name)))"
    and "CHR ''/'' \<notin> set owner" and "CHR ''/'' \<notin> set name"
    and "get_prop (Some payload) ''ref'' = Inr (Some (JStr (''refs/heads/'' @ branch)))"
    and "get_prop (Some payload) ''after'' = Inr commitSha"
    and "st (owner @ ''/'' @ name) = Some secret"
    and "x_hub_signature_256 req = Some (''sha256='' @ hmac secret (JSON_stringify payload))"
  shows "calls (webhook_github hmac cfg w st req) =
           [Axios_post
              (env_text (JENKINS_URL cfg) @ ''/job/'' @ (''odoo-deploy-'' @ owner)
                 @ ''/buildWithParameters'')
              [(''REPO_OWNER'', Some (JStr owner)), (''REPO_NAME'', Some (JStr name)),
               (''BRANCH'', Some (JStr branch)), (''USER_ID'', Some (JStr owner)),
               (''COMMIT_SHA'', commitSha)]]"
proof -
  have ne: "secret \<noteq> []"
    using reachable_secret_not_empty [OF assms(1,10)] .
  from webhook_github_registered [where st = st and hmac = hmac and cfg = cfg and w = w,
      OF assms(2,3,4,5,8,10) ne] assms(9,11)
  have "webhook_github hmac cfg w st req =
          trigger_build cfg w st (Some (JStr (owner @ ''/'' @ name)))
            (replace ''refs/heads/'' [] (''refs/heads/'' @ branch)) commitSha"
    by auto
  then show ?thesis
    using trigger_build_owner_name [OF assms(6,7)] replace_prefix [of "''refs/heads/''" "[]" branch]
    by simp
qed

lemma spaced_push_sel:
  "x_github_event (spaced_push hmac) = Some ''push''"
  "body (spaced_push hmac) = Some push_main"
  "raw_body (spaced_push hmac) = spaced_text"
  "x_hub_signature_256 (spaced_push hmac) = Some (''sha256='' @ hmac secret_acme spaced_text)"
  by (simp_all add: spaced_push_def)

lemma compact_signed_sel:
  "x_github_event (compact_signed hmac) = Some ''push''"
  "body (compact_signed hmac) = Some push_main"
  "raw_body (compact_signed hmac) = spaced_text"
  "x_hub_signature_256 (compact_signed hmac) = Some (''sha256='' @ hmac secret_acme compact_text)"
  by (simp_all add: compact_signed_def)

lemma secret_acme_not_empty: "secret_acme \<noteq> []"
  by (simp add: secret_acme_def)

lemma texts_differ: "compact_text \<noteq> spaced_text"
  by (simp add: compact_text_def spaced_text_def)

lemma spaced_push_rejected:
  assumes "hmac secret_acme spaced_text \<noteq> hmac secret_acme compact_text"
  shows "webhook_github hmac cfg w st_acme (spaced_push hmac) =
           \<lparr>reply = Text_response 401 ''Invalid signature'', secrets = st_acme, calls = []\<rparr>"
  using webhook_github_registered [where st = st_acme and hmac = hmac and cfg = cfg and w = w
      and req = "spaced_push hmac", OF spaced_push_sel(1,2) push_main_props(1,2,3)
      st_acme_lookup(1) secret_acme_not_empty] assms
  by (auto simp: spaced_push_sel signed_text_push_main)

lemma compact_signed_accepted:
  "calls (webhook_github hmac cfg w st_acme (compact_signed hmac)) =
     [Axios_post (env_text (JENKINS_URL cfg) @ ''/job/odoo-deploy-acme/buildWithParameters'')
        [(''REPO_OWNER'', Some (JStr ''acme'')), (''REPO_NAME'', Some (JStr ''widget'')),
         (''BRANCH'', Some (JStr ''main'')), (''USER_ID'', Some (JStr ''acme'')),
         (''COMMIT_SHA'', Some (JStr ''abc123''))]]"
proof -
  have a: "get_prop (Some (JObj [(''full_name'', JStr ''acme/widget'')])) ''full_name'' =
             Inr (Some (JStr (''acme'' @ ''/'' @ ''widget'')))"
    "get_prop (Some push_main) ''ref'' = Inr (Some (JStr (''refs/heads/'' @ ''main'')))"
    "st_acme (''acme'' @ ''/'' @ ''widget'') = Some secret_acme"
    "CHR ''/'' \<notin> set ''acme''" "CHR ''/'' \<notin> set ''widget''"
    "x_hub_signature_256 (compact_signed hmac) =
       Some (''sha256='' @ hmac secret_acme (JSON_stringify push_main))"
    by (simp_all add: push_main_props st_acme_lookup compact_signed_sel signed_text_push_main)
  from accepted_push_build_parameters [where st = st_acme and hmac = hmac and cfg = cfg
      and w = w, OF reachable_st_acme compact_signed_sel(1,2) push_main_props(1) a(1,4,5,2)
      push_main_props(4) a(3,6)]
  show ?thesis by simp
qed

text \<open>
  Claim C1 at a failing input. The repository \<^verbatim>\<open>acme/widget\<close> has a stored secret and the
  body arrives as JSON text with a blank after each colon and comma. For every HMAC function
  that tells this text from its compact form: the push whose header is the signature of
  the bytes received triggers no build and is answered 401, and the push whose header is
  not the signature of the bytes received, but that of \<^verbatim>\<open>JSON.stringify(req.body)\<close>, is
  accepted and its build is triggered. Acceptance is decided by the re-serialized text.
\<close>

theorem acceptance_not_decided_by_raw_body:
  assumes "hmac secret_acme spaced_text \<noteq> hmac secret_acme compact_text"
  shows "st_acme ''acme/widget'' = Some secret_acme \<and>
         x_hub_signature_256 (spaced_push hmac) =
           Some (''sha256='' @ hmac secret_acme (raw_body (spaced_push hmac))) \<and>
         builds (webhook_github hmac cfg w st_acme (spaced_push hmac)) = [] \<and>
         reply (webhook_github hmac cfg w st_acme (spaced_push hmac)) =
           Text_response 401 ''Invalid signature'' \<and>
         x_hub_signature_256 (compact_signed hmac) \<noteq>
           Some (''sha256='' @ hmac secret_acme (raw_body (compact_signed hmac))) \<and>
         builds (webhook_github hmac cfg w st_acme (compact_signed hmac)) =
           [Axios_post (env_text (JENKINS_URL cfg) @ ''/job/odoo-deploy-acme/buildWithParameters'')
              [(''REPO_OWNER'', Some (JStr ''acme'')), (''REPO_NAME'', Some (JStr ''widget'')),
               (''BRANCH'', Some (JStr ''main'')), (''USER_ID'', Some (JStr ''acme'')),
               (''COMMIT_SHA'', Some (JStr ''abc123''))]]"
  using assms
  by (simp add: st_acme_lookup spaced_push_sel compact_signed_sel spaced_push_rejected
      compact_signed_accepted builds_def)

theorem acceptance_not_decided_by_raw_body_witness:
  "sample_hmac secret_acme spaced_text \<noteq> sample_hmac secret_acme compact_text \<and>
   x_hub_signature_256 (spaced_push sample_hmac) =
     Some (''sha256='' @ sample_hmac secret_acme (raw_body (spaced_push sample_hmac))) \<and>
   builds (webhook_github sample_hmac cfg0 world_ok st_acme (spaced_push sample_hmac)) = [] \<and>
   x_hub_signature_256 (compact_signed sample_hmac) \<noteq>
     Some (''sha256='' @ sample_hmac secret_acme (raw_body (compact_signed sample_hmac))) \<and>
   builds (webhook_github sample_hmac cfg0 world_ok st_acme (compact_signed sample_hmac)) \<noteq> []"
proof -
  have h: "sample_hmac secret_acme spaced_text \<noteq> sample_hmac secret_acme compact_text"
    by (simp add: sample_hmac_def spaced_text_def compact_text_def)
  from acceptance_not_decided_by_raw_body [where hmac = sample_hmac and cfg = cfg0
      and w = world_ok, OF h] h
  show ?thesis by simp
qed

text \<open>The receiver never reads the bytes of the body as they arrived.\<close>

lemma webhook_github_raw_body:
  "webhook_github hmac cfg w st (req\<lparr>raw_body := r\<rparr>) = webhook_github hmac cfg w st req"
  by (simp add: webhook_github_def signed_text_def split: sum.splits option.splits prod.splits)

text \<open>
  Claim C2 at a failing input. The push arrives as JSON text with a blank after each colon
  and comma, and its header is the signature of exactly these bytes under the stored
  secret. The receiver signs \<^verbatim>\<open>JSON.stringify(req.body)\<close>, which is the compact text and not
  the text received, so for every HMAC function that tells the two texts apart it answers
  401 \<^verbatim>\<open>Invalid signature\<close>.
\<close>

theorem raw_body_signature_rejected:
  assumes "hmac secret_acme spaced_text \<noteq> hmac secret_acme compact_text"
  shows "raw_body (spaced_push hmac) = spaced_text \<and>
         x_hub_signature_256 (spaced_push hmac) =
           Some (''sha256='' @ hmac secret_acme (raw_body (spaced_push hmac))) \<and>
         signed_text (spaced_push hmac) = Inr compact_text \<and>
         signed_text (spaced_push hmac) \<noteq> Inr (raw_body (spaced_push hmac)) \<and>
         webhook_github hmac cfg w st_acme (spaced_push hmac) =
           \<lparr>reply = Text_response 401 ''Invalid signature'', secrets = st_acme, calls = []\<rparr>"
  using spaced_push_rejected [where hmac = hmac and cfg = cfg and w = w, OF assms] texts_differ
  by (simp add: spaced_push_sel signed_text_def signed_text_push_main)

theorem raw_body_signature_rejected_witness:
  "sample_hmac secret_acme spaced_text \<noteq> sample_hmac secret_acme compact_text \<and>
   signed_text (spaced_push sample_hmac) \<noteq> Inr (raw_body (spaced_push sample_hmac)) \<and>
   webhook_github sample_hmac cfg0 world_ok st_acme (spaced_push sample_hmac) =
     \<lparr>reply = Text_response 401 ''Invalid signature'', secrets = st_acme, calls = []\<rparr>"
proof -
  have h: "sample_hmac secret_acme spaced_text \<noteq> sample_hmac secret_acme compact_text"
    by (simp add: sample_hmac_def spaced_text_def compact_text_def)
  from raw_body_signature_rejected [where hmac = sample_hmac and cfg = cfg0 and w = world_ok,
      OF h] h
  show ?thesis
    by blast
qed

text \<open>
  Claim C6 at a failing input. The accepted push of the tag \<^verbatim>\<open>refs/tags/refs/heads/x\<close> is
  built with \<^verbatim>\<open>BRANCH\<close> = \<^verbatim>\<open>refs/tags/x\<close>: \<^verbatim>\<open>replace\<close> removes the first occurrence of
  \<^verbatim>\<open>refs/heads/\<close> wherever it stands, while stripping the prefix leaves this ref as it is.
  The other parameters are the owner, the name, the owner again and the commit id.
\<close>

theorem inner_occurrence_removed_from_ref:
  "x_github_event good_tag_push = Some ''push'' \<and>
   get_prop (body good_tag_push) ''ref'' = Inr (Some (JStr ''refs/tags/refs/heads/x'')) \<and>
   st_acme ''acme/widget'' = Some secret_acme \<and>
   body good_tag_push = Some push_tag \<and>
   x_hub_signature_256 good_tag_push =
     Some (''sha256='' @ sample_hmac secret_acme (JSON_stringify push_tag)) \<and>
   calls (webhook_github sample_hmac cfg0 world_ok st_acme good_tag_push) =
     [Axios_post ''http://jenkins/job/odoo-deploy-acme/buildWithParameters''
        [(''REPO_OWNER'', Some (JStr ''acme'')), (''REPO_NAME'', Some (JStr ''widget'')),
         (''BRANCH'', Some (JStr ''refs/tags/x'')), (''USER_ID'', Some (JStr ''acme'')),
         (''COMMIT_SHA'', Some (JStr ''abc123''))]] \<and>
   strip_prefix ''refs/heads/'' ''refs/tags/refs/heads/x'' = ''refs/tags/refs/heads/x'' \<and>
   ''refs/tags/x'' \<noteq> strip_prefix ''refs/heads/'' ''refs/tags/refs/heads/x''"
  by (simp add: good_tag_push_outcome st_acme_lookup strip_prefix_def)
    (simp add: good_tag_push_def delivery_sel push_tag_props signed_text_push_tag)

section \<open>Properties of the registrar\<close>

lemma add_repo_fields:
  assumes "get_prop (body req) ''repo_owner'' = Inr repo_owner"
    and "get_prop (body req) ''repo_name'' = Inr repo_name"
    and "get_prop (body req) ''branch'' = Inr branch"
    and "get_prop (body req) ''user_id'' = Inr user_id"
  shows "add_repo cfg w st req =
           (if \<not> truthy repo_owner \<or> \<not> truthy repo_name \<or> \<not> truthy branch \<or> \<not> truthy user_id
            then \<lparr>reply = missing_fields, secrets = st, calls = []\<rparr>
            else add_repo_try cfg w st repo_owner repo_name branch user_id)"
  using assms by (simp add: add_repo_def)

lemma add_repo_falsy_field:
  assumes "k \<in> {''repo_owner'', ''repo_name'', ''branch'', ''user_id''}"
    and "get_prop (body req) k = Inr v"
    and "\<not> truthy v"
  shows "add_repo cfg w st req = \<lparr>reply = missing_fields, secrets = st, calls = []\<rparr>"
proof -
  from get_prop_total [OF assms(2)] obtain ow nm br us where f:
    "get_prop (body req) ''repo_owner'' = Inr ow"
    "get_prop (body req) ''repo_name'' = Inr nm"
    "get_prop (body req) ''branch'' = Inr br"
    "get_prop (body req) ''user_id'' = Inr us"
    by metis
  from assms f have "\<not> truthy ow \<or> \<not> truthy nm \<or> \<not> truthy br \<or> \<not> truthy us"
    by auto
  with add_repo_fields [OF f] show ?thesis
    by simp
qed

text \<open>What the registrar does when the body was parsed and a field is missing from it.\<close>

lemma missing_field_rejected:
  assumes "k \<in> {''repo_owner'', ''repo_name'', ''branch'', ''user_id''}"
    and "get_prop (body req) k = Inr None"
  shows "add_repo cfg w st req =
           \<lparr>reply = Json_response 400
              (JObj [(''error'',
                 JStr ''Missing required fields: repo_owner, repo_name, branch, user_id'')]),
            secrets = st, calls = []\<rparr>"
  using add_repo_falsy_field [OF assms, of cfg w st] by (simp add: missing_fields_def)

lemma missing_branch_rejected:
  "add_repo cfg0 world_ok st_acme register_no_branch =
     \<lparr>reply = Json_response 400
        (JObj [(''error'',
           JStr ''Missing required fields: repo_owner, repo_name, branch, user_id'')]),
      secrets = st_acme, calls = []\<rparr>"
proof -
  have 1: "''branch'' \<in> {''repo_owner'', ''repo_name'', ''branch'', ''user_id''}"
    by simp
  have 2: "get_prop (body register_no_branch) ''branch'' = Inr None"
    by (simp add: register_no_branch_def)
  from missing_field_rejected [OF 1 2] show ?thesis .
qed

text \<open>
  Claim C7 at a failing input. When the request has no parsed body (\<^verbatim>\<open>req.body\<close> is
  \<^verbatim>\<open>undefined\<close>), all four fields are absent, but the destructuring on line 29 throws
  before the validation and outside the \<^verbatim>\<open>try\<close>: the handler does not answer 400. It
  still sends no call and leaves the store as it was.
\<close>

theorem absent_body_not_answered_400:
  assumes "body req = None"
  shows "(\<forall>k. \<exists>error. get_prop (body req) k = Inl error) \<and>
         (\<exists>error. reply (add_repo cfg w st req) = Unhandled error) \<and>
         reply (add_repo cfg w st req) \<noteq>
           Json_response 400
             (JObj [(''error'',
                JStr ''Missing required fields: repo_owner, repo_name, branch, user_id'')]) \<and>
         secrets (add_repo cfg w st req) = st \<and>
         calls (add_repo cfg w st req) = []"
  using assms by (simp add: add_repo_def)

theorem absent_body_not_answered_400_witness:
  "body register_no_body = None \<and>
   (\<exists>error. reply (add_repo cfg0 world_ok st_acme register_no_body) = Unhandled error) \<and>
   reply (add_repo cfg0 world_ok st_acme register_no_body) \<noteq>
     Json_response 400
       (JObj [(''error'',
          JStr ''Missing required fields: repo_owner, repo_name, branch, user_id'')])"
proof -
  have h: "body register_no_body = None"
    by (simp add: register_no_body_def)
  from absent_body_not_answered_400 [OF h, of cfg0 world_ok st_acme] h show ?thesis
    by blast
qed

text \<open>
  Claim C10. When any of the four fields is present but is the empty string, the registrar
  answers with the same 400 missing-fields error, sends no call and leaves the store as it
  was.
\<close>

theorem empty_field_rejected:
  assumes "k \<in> {''repo_owner'', ''repo_name'', ''branch'', ''user_id''}"
    and "get_prop (body req) k = Inr (Some (JStr []))"
  shows "add_repo cfg w st req =
           \<lparr>reply = Json_response 400
              (JObj [(''error'',
                 JStr ''Missing required fields: repo_owner, repo_name, branch, user_id'')]),
            secrets = st, calls = []\<rparr>"
  using add_repo_falsy_field [OF assms, of cfg w st] by (simp add: missing_fields_def)

theorem empty_field_rejected_witness:
  "''repo_owner'' \<in> {''repo_owner'', ''repo_name'', ''branch'', ''user_id''} \<and>
   get_prop (body register_empty_owner) ''repo_owner'' = Inr (Some (JStr [])) \<and>
   add_repo cfg0 world_ok st_acme register_empty_owner =
     \<lparr>reply = Json_response 400
        (JObj [(''error'',
           JStr ''Missing required fields: repo_owner, repo_name, branch, user_id'')]),
      secrets = st_acme, calls = []\<rparr>"
proof -
  have 1: "''repo_owner'' \<in> {''repo_owner'', ''repo_name'', ''branch'', ''user_id''}"
    by simp
  have 2: "get_prop (body register_empty_owner) ''repo_owner'' = Inr (Some (JStr []))"
    by (simp add: register_empty_owner_def)
  from empty_field_rejected [OF 1 2, of cfg0 world_ok st_acme] 1 2 show ?thesis
    by simp
qed

lemma add_repo_valid:
  assumes "get_prop (body req) ''repo_owner'' = Inr (Some (JStr owner))"
    and "get_prop (body req) ''repo_name'' = Inr (Some (JStr name))"
    and "get_prop (body req) ''branch'' = Inr (Some (JStr branch))"
    and "get_prop (body req) ''user_id'' = Inr (Some (JStr user))"
    and "owner \<noteq> []" and "name \<noteq> []" and "branch \<noteq> []" and "user \<noteq> []"
  shows "add_repo cfg w st req =
           add_repo_try cfg w st (Some (JStr owner)) (Some (JStr name)) (Some (JStr branch))
             (Some (JStr user))"
  using add_repo_fields [OF assms(1-4), of cfg w st] assms(5-8) by simp

lemma not_succeeded_catch:
  "\<not> succeeded \<lparr>reply = add_repo_catch error, secrets = st, calls = cs\<rparr>"
  by (simp add: succeeded_def add_repo_catch_def field_def split: option.splits)

lemma succeeded_add_repo_try:
  assumes "succeeded (add_repo_try cfg w st (Some (JStr owner)) (Some (JStr name)) br us)"
  shows "secrets (add_repo_try cfg w st (Some (JStr owner)) (Some (JStr name)) br us) =
           st(owner @ ''/'' @ name \<mapsto> toString_hex (randomBytes w 32))"
  using assms not_succeeded_catch
  by (simp add: add_repo_try_def Let_def template_JStr split: sum.splits)



text \<open>
  Claim C5. For valid registration inputs, a successful call leaves the store equal to the
  old one updated at exactly the key \<^verbatim>\<open>owner/name\<close> with the freshly generated secret,
  whatever was stored there before. Afterwards a push for that repository triggers a build
  exactly when it is signed with the new secret; a push signed with the secret stored
  before is answered 401 whenever that signature differs from the new one.
\<close>

theorem registration_overwrites_secret:
  assumes "get_prop (body req) ''repo_owner'' = Inr (Some (JStr owner))"
    and "get_prop (body req) ''repo_name'' = Inr (Some (JStr name))"
    and "get_prop (body req) ''branch'' = Inr (Some (JStr branch))"
    and "get_prop (body req) ''user_id'' = Inr (Some (JStr user))"
    and "owner \<noteq> []" and "name \<noteq> []" and "branch \<noteq> []" and "user \<noteq> []"
    and "succeeded (add_repo cfg w st req)"
    and "x_github_event p = Some ''push''"
    and "body p = Some payload"
    and "get_prop (Some payload) ''repository'' = Inr repository"
    and "get_prop repository ''full_name'' = Inr (Some (JStr (owner @ ''/'' @ name)))"
    and "get_prop (Some payload) ''ref'' = Inr (Some (JStr ref))"
  shows "secrets (add_repo cfg w st req) =
           st(owner @ ''/'' @ name \<mapsto> toString_hex (randomBytes w 32)) \<and>
         (builds (webhook_github hmac cfg' w' (secrets (add_repo cfg w st req)) p) \<noteq> []) =
           (x_hub_signature_256 p =
              Some (''sha256='' @ hmac (toString_hex (randomBytes w 32))
                                      (JSON_stringify payload))) \<and>
         (st (owner @ ''/'' @ name) = Some old \<and>
          hmac old (JSON_stringify payload) \<noteq>
            hmac (toString_hex (randomBytes w 32)) (JSON_stringify payload) \<and>
          x_hub_signature_256 p = Some (''sha256='' @ hmac old (JSON_stringify payload)) \<longrightarrow>
          webhook_github hmac cfg' w' (secrets (add_repo cfg w st req)) p =
            \<lparr>reply = Text_response 401 ''Invalid signature'',
             secrets = secrets (add_repo cfg w st req), calls = []\<rparr>)"
proof -
  let ?new = "toString_hex (randomBytes w 32)"
  let ?st' = "secrets (add_repo cfg w st req)"
  from assms(9) have st': "?st' = st(owner @ ''/'' @ name \<mapsto> ?new)"
    using succeeded_add_repo_try [of cfg w st owner name "Some (JStr branch)" "Some (JStr user)"]
    by (simp add: add_repo_valid [OF assms(1-8)])
  then have lk: "?st' (owner @ ''/'' @ name) = Some ?new"
    by simp
  from webhook_github_registered [where st = ?st' and hmac = hmac and cfg = cfg' and w = w',
      OF assms(10-14) lk fresh_secret_not_empty]
  obtain commitSha where eq:
    "webhook_github hmac cfg' w' ?st' p =
       (if x_hub_signature_256 p \<noteq> Some (''sha256='' @ hmac ?new (JSON_stringify payload))
        then \<lparr>reply = Text_response 401 ''Invalid signature'', secrets = ?st', calls = []\<rparr>
        else trigger_build cfg' w' ?st' (Some (JStr (owner @ ''/'' @ name)))
               (replace ''refs/heads/'' [] ref) commitSha)"
    by blast
  from trigger_build_calls [of cfg' w' ?st' "owner @ ''/'' @ name"
      "replace ''refs/heads/'' [] ref" commitSha]
  have tb: "builds (trigger_build cfg' w' ?st' (Some (JStr (owner @ ''/'' @ name)))
               (replace ''refs/heads/'' [] ref) commitSha) \<noteq> []"
    by (auto simp: builds_def)
  have iff: "(builds (webhook_github hmac cfg' w' ?st' p) \<noteq> []) =
           (x_hub_signature_256 p = Some (''sha256='' @ hmac ?new (JSON_stringify payload)))"
    using tb by (simp add: eq builds_def)
  have old: "x_hub_signature_256 p \<noteq> Some (''sha256='' @ hmac ?new (JSON_stringify payload))
      \<Longrightarrow> webhook_github hmac cfg' w' ?st' p =
            \<lparr>reply = Text_response 401 ''Invalid signature'', secrets = ?st', calls = []\<rparr>"
    by (simp add: eq)
  from st' iff old show ?thesis
    by auto
qed

lemma register_again_succeeded: "succeeded (add_repo cfg0 world_later st_acme register_acme)"
  by (simp add: add_repo_valid [OF register_acme_props] add_repo_try_def Let_def template_JStr
      world_later_calls ensureJenkinsJobExists_def succeeded_def)

theorem registration_overwrites_secret_witness:
  "succeeded (add_repo cfg0 world_later st_acme register_acme) \<and>
   st_acme (''acme'' @ ''/'' @ ''widget'') = Some secret_acme \<and>
   secrets (add_repo cfg0 world_later st_acme register_acme) =
     [''acme/widget'' \<mapsto> secret_later] \<and>
   x_hub_signature_256 good_push =
     Some (''sha256='' @ sample_hmac secret_acme (JSON_stringify push_main)) \<and>
   reply (webhook_github sample_hmac cfg0 world_ok
            (secrets (add_repo cfg0 world_later st_acme register_acme)) good_push) =
     Text_response 401 ''Invalid signature''"
proof -
  have ne: "''acme'' \<noteq> []" "''widget'' \<noteq> []" "''main'' \<noteq> []" "''u123'' \<noteq> []"
    by simp_all
  have g: "x_github_event good_push = Some ''push''"
    "body good_push = Some push_main"
    "get_prop (Some push_main) ''repository'' =
       Inr (Some (JObj [(''full_name'', JStr ''acme/widget'')]))"
    "get_prop (Some (JObj [(''full_name'', JStr ''acme/widget'')])) ''full_name'' =
       Inr (Some (JStr (''acme'' @ ''/'' @ ''widget'')))"
    "get_prop (Some push_main) ''ref'' = Inr (Some (JStr ''refs/heads/main''))"
    "x_hub_signature_256 good_push =
       Some (''sha256='' @ sample_hmac secret_acme (JSON_stringify push_main))"
    by (simp_all add: good_push_def delivery_sel push_main_props signed_text_push_main)
  have o: "st_acme (''acme'' @ ''/'' @ ''widget'') = Some secret_acme"
    by (simp add: st_acme_lookup)
  have d: "sample_hmac secret_acme (JSON_stringify push_main) \<noteq>
           sample_hmac (toString_hex (randomBytes world_later 32)) (JSON_stringify push_main)"
    by (simp add: sample_hmac_def secret_world_later secret_acme_def secret_later_def)
  note t = registration_overwrites_secret [where hmac = sample_hmac and cfg' = cfg0
      and w' = world_ok and old = secret_acme,
      OF register_acme_props ne register_again_succeeded g(1-5)]
  from t have a: "secrets (add_repo cfg0 world_later st_acme register_acme) =
      st_acme(''acme'' @ ''/'' @ ''widget'' \<mapsto> toString_hex (randomBytes world_later 32))"
    by blast
  from t o d g(6) have b: "webhook_github sample_hmac cfg0 world_ok
        (secrets (add_repo cfg0 world_later st_acme register_acme)) good_push =
      \<lparr>reply = Text_response 401 ''Invalid signature'',
       secrets = secrets (add_repo cfg0 world_later st_acme register_acme), calls = []\<rparr>"
    by blast
  have c: "secrets (add_repo cfg0 world_later st_acme register_acme) =
      [''acme/widget'' \<mapsto> secret_later]"
    using a by (simp add: secret_world_later st_acme_eq)
  have e: "reply (webhook_github sample_hmac cfg0 world_ok
        (secrets (add_repo cfg0 world_later st_acme register_acme)) good_push) =
      Text_response 401 ''Invalid signature''"
    by (simp add: b)
  from register_again_succeeded o c g(6) e show ?thesis
    by blast
qed

text \<open>A truthy field that a template literal cannot print: line 39 throws inside the
  \<^verbatim>\<open>try\<close> and the registrar answers the generic 500 before any call goes out.\<close>

lemma unprintable_owner_internal_error:
  assumes "get_prop (body req) ''repo_owner'' = Inr repo_owner"
    and "get_prop (body req) ''repo_name'' = Inr repo_name"
    and "get_prop (body req) ''branch'' = Inr branch"
    and "get_prop (body req) ''user_id'' = Inr user_id"
    and "truthy repo_owner" and "truthy repo_name" and "truthy branch" and "truthy user_id"
    and "template repo_owner = Inl error"
  shows "add_repo cfg w st req =
           \<lparr>reply = add_repo_catch error, secrets = st, calls = []\<rparr>"
  using assms(5-9) by (simp add: add_repo_fields [OF assms(1-4)] add_repo_try_def)

end
